theory Spec2Isabelle
  imports Main
begin

section \<open>Text\<close>

text \<open>
  Python's \<^verbatim>\<open>str\<close> is a sequence of code points. The texts that enter the service from
  outside (the pull-request URL, the token, the raw reply of the review model) are
  modelled as \<^typ>\<open>string\<close>, a list of 8-bit characters read as the code points 0..255.
  Within that range \<^verbatim>\<open>str.isspace\<close> and the regular expression class \<^verbatim>\<open>\d\<close> are
  exactly the predicates below. Texts that are computed by decoding JSON can hold any
  code point (through \<^verbatim>\<open>\uXXXX\<close> escapes) and are lists of code points, \<open>ustring\<close>.
  \<^verbatim>\<open>int\<close> is Python's unbounded integer; the interpreter's configurable limit on the
  length of a decimal literal given to \<^verbatim>\<open>int()\<close> is not part of the model.
\<close>

type_synonym ustring = "nat list"

definition u :: "string \<Rightarrow> ustring" where
  "u s = map of_char s"

definition isspace :: "char \<Rightarrow> bool" where
  "isspace c =
     (let n = (of_char c :: nat)
      in (9 \<le> n \<and> n \<le> 13) \<or> (28 \<le> n \<and> n \<le> 32) \<or> n = 133 \<or> n = 160)"

definition is_digit :: "char \<Rightarrow> bool" where
  "is_digit c = (let n = (of_char c :: nat) in 48 \<le> n \<and> n \<le> 57)"

definition digit_value :: "char \<Rightarrow> int" where
  "digit_value c = int (of_char c) - 48"

text \<open>\<^verbatim>\<open>s.strip()\<close>, \<^verbatim>\<open>s.lstrip('@')\<close>, \<^verbatim>\<open>s.startswith(p)\<close> and \<^verbatim>\<open>int(s)\<close> on a run of digits.\<close>

definition strip :: "string \<Rightarrow> string" where
  "strip s = rev (dropWhile isspace (rev (dropWhile isspace s)))"

definition lstrip_at :: "string \<Rightarrow> string" where
  "lstrip_at s = dropWhile (\<lambda>c. c = CHR ''@'') s"

definition startswith :: "'a list \<Rightarrow> 'a list \<Rightarrow> bool" where
  "startswith s p = (take (length p) s = p)"

definition py_int :: "string \<Rightarrow> int" where
  "py_int ds = foldl (\<lambda>a c. 10 * a + digit_value c) 0 ds"

text \<open>What is left of \<open>s\<close> after the literal \<open>p\<close>, when \<open>s\<close> starts with it.\<close>

definition after_literal :: "string \<Rightarrow> string \<Rightarrow> string option" where
  "after_literal p s = (if startswith s p then Some (drop (length p) s) else None)"

section \<open>PR reference parser: \<^verbatim>\<open>extract_pr_info\<close> (main.py, lines 69-90)\<close>

text \<open>
  What a function raises: an \<^verbatim>\<open>HTTPException\<close> with its status and detail, the
  \<^verbatim>\<open>TypeError\<close> of an operation on a value of the wrong type, or the error of the
  response model's validation.
\<close>

datatype exn =
    HTTPException nat ustring
  | TypeError
  | ValidationError

text \<open>
  The common tail of the three patterns, \<^verbatim>\<open>([^/]+)/([^/]+)/pull/(\d+)\<close>. A group
  \<^verbatim>\<open>[^/]+\<close> is greedy and is followed by a literal slash: it ends at the first slash,
  since a shorter choice would need a slash where there is none. \<^verbatim>\<open>(\d+)\<close> ends the
  pattern, so the first (longest) run of digits is the match. The result holds the
  three groups.
\<close>

definition not_slash :: "char \<Rightarrow> bool" where
  "not_slash c = (c \<noteq> CHR ''/'')"

definition match_tail :: "string \<Rightarrow> (string \<times> string \<times> string) option" where
  "match_tail s =
     (let g1 = takeWhile not_slash s in
      if g1 = [] then None
      else case after_literal ''/'' (dropWhile not_slash s) of
        None \<Rightarrow> None
      | Some s2 \<Rightarrow>
         (let g2 = takeWhile not_slash s2 in
          if g2 = [] then None
          else case after_literal ''/pull/'' (dropWhile not_slash s2) of
            None \<Rightarrow> None
          | Some s3 \<Rightarrow>
             (let g3 = takeWhile is_digit s3 in
              if g3 = [] then None else Some (g1, g2, g3))))"

text \<open>
  \<^verbatim>\<open>re.match(pattern, cleaned_url)\<close> for the three patterns of the source, in its order.
  \<^verbatim>\<open>re.match\<close> anchors at the start of the string and not at its end. In the second
  pattern \<^verbatim>\<open>s?\<close> first takes an \<^verbatim>\<open>s\<close> and gives it back when the rest fails.
\<close>

definition pattern1 :: "string \<Rightarrow> (string \<times> string \<times> string) option" where
  "pattern1 s = (case after_literal ''github.com/'' s of None \<Rightarrow> None | Some t \<Rightarrow> match_tail t)"

definition pattern2 :: "string \<Rightarrow> (string \<times> string \<times> string) option" where
  "pattern2 s =
     (case after_literal ''http'' s of
        None \<Rightarrow> None
      | Some t \<Rightarrow>
         (let with_s =
            (case after_literal ''s'' t of
               None \<Rightarrow> None
             | Some t' \<Rightarrow>
                (case after_literal ''://github.com/'' t' of
                   None \<Rightarrow> None
                 | Some r \<Rightarrow> match_tail r))
          in case with_s of
               Some m \<Rightarrow> Some m
             | None \<Rightarrow>
                (case after_literal ''://github.com/'' t of
                   None \<Rightarrow> None
                 | Some r \<Rightarrow> match_tail r)))"

definition pattern3 :: "string \<Rightarrow> (string \<times> string \<times> string) option" where
  "pattern3 s =
     (case after_literal ''www.github.com/'' s of None \<Rightarrow> None | Some t \<Rightarrow> match_tail t)"

definition patterns :: "(string \<Rightarrow> (string \<times> string \<times> string) option) list" where
  "patterns = [pattern1, pattern2, pattern3]"

text \<open>The loop over the patterns: the first that matches decides.\<close>

fun first_match ::
  "(string \<Rightarrow> (string \<times> string \<times> string) option) list \<Rightarrow> string
     \<Rightarrow> (string \<times> string \<times> string) option" where
  "first_match [] s = None"
| "first_match (p # ps) s = (case p s of Some m \<Rightarrow> Some m | None \<Rightarrow> first_match ps s)"

definition cleaned_url :: "string \<Rightarrow> string" where
  "cleaned_url pr_url = lstrip_at (strip pr_url)"

definition invalid_url_detail :: "string \<Rightarrow> ustring" where
  "invalid_url_detail pr_url =
     u ''Invalid GitHub PR URL. Expected format: https://github.com/owner/repo/pull/123. Got: ''
       @ u pr_url"

definition extract_pr_info :: "string \<Rightarrow> exn + (string \<times> string \<times> int)" where
  "extract_pr_info pr_url =
     (case first_match patterns (cleaned_url pr_url) of
        Some (g1, g2, g3) \<Rightarrow> Inr (g1, g2, py_int g3)
      | None \<Rightarrow> Inl (HTTPException 400 (invalid_url_detail pr_url)))"



section \<open>Values\<close>

text \<open>
  The Python values that \<^verbatim>\<open>json.loads\<close> produces. Floating-point arithmetic is not
  modelled: a float is kept as what it was made from, the integer given to
  \<^verbatim>\<open>float()\<close> or the literal of the document. A dictionary is the list of its items in
  insertion order, with one item for a key: \<open>dict_set\<close> is item assignment,
  \<open>dict_get\<close> is \<^verbatim>\<open>get\<close> with a default, and \<open>dict\<close> builds a dictionary from pairs,
  where a later pair with the same key replaces the value of the earlier one.
\<close>

datatype pyfloat = Float_of_int int | Float_of_literal string

datatype json =
    JNull
  | JBool bool
  | JInt int
  | JFloat pyfloat
  | JString ustring
  | JArray "json list"
  | JObject "(ustring \<times> json) list"

fun dict_set :: "('k \<times> 'v) list \<Rightarrow> 'k \<Rightarrow> 'v \<Rightarrow> ('k \<times> 'v) list" where
  "dict_set [] k v = [(k, v)]"
| "dict_set ((k', v') # d) k v =
     (if k' = k then (k, v) # d else (k', v') # dict_set d k v)"

definition dict_get :: "('k \<times> 'v) list \<Rightarrow> 'k \<Rightarrow> 'v \<Rightarrow> 'v" where
  "dict_get d k dflt = (case map_of d k of None \<Rightarrow> dflt | Some v \<Rightarrow> v)"

definition dict :: "('k \<times> 'v) list \<Rightarrow> ('k \<times> 'v) list" where
  "dict pairs = foldl (\<lambda>d (k, v). dict_set d k v) [] pairs"

section \<open>json.loads\<close>

datatype json_msg =
    Expecting_value
  | Extra_data
  | Unterminated_string
  | Invalid_control char
  | Invalid_escape char
  | Invalid_uXXXX
  | Expecting_property_name
  | Expecting_colon
  | Expecting_comma
  | Out_of_fuel

type_synonym 'a decoded = "(json_msg \<times> string) + ('a \<times> string)"

definition is_json_ws :: "char \<Rightarrow> bool" where
  "is_json_ws c = (c = CHR '' '' \<or> c = CHR 0x09 \<or> c = CHR 0x0A \<or> c = CHR 0x0D)"

definition skip_ws :: "string \<Rightarrow> string" where
  "skip_ws s = dropWhile is_json_ws s"

definition hex_value :: "char \<Rightarrow> nat option" where
  "hex_value c =
     (let n = (of_char c :: nat) in
      if 48 \<le> n \<and> n \<le> 57 then Some (n - 48)
      else if 65 \<le> n \<and> n \<le> 70 then Some (n - 55)
      else if 97 \<le> n \<and> n \<le> 102 then Some (n - 87)
      else None)"

fun hex_number :: "nat \<Rightarrow> string \<Rightarrow> nat option" where
  "hex_number a [] = Some a"
| "hex_number a (c # cs) =
     (case hex_value c of None \<Rightarrow> None | Some d \<Rightarrow> hex_number (16 * a + d) cs)"

definition decode_uXXXX :: "string \<Rightarrow> nat option" where
  "decode_uXXXX s = (if length s < 4 then None else hex_number 0 (take 4 s))"

definition backslash :: "char \<Rightarrow> nat option" where
  "backslash c =
     (if c = CHR 0x22 then Some 0x22
      else if c = CHR 0x5C then Some 0x5C
      else if c = CHR ''/'' then Some 0x2F
      else if c = CHR ''b'' then Some 0x08
      else if c = CHR ''f'' then Some 0x0C
      else if c = CHR ''n'' then Some 0x0A
      else if c = CHR ''r'' then Some 0x0D
      else if c = CHR ''t'' then Some 0x09
      else None)"

fun scanstring :: "string \<Rightarrow> ustring \<Rightarrow> string \<Rightarrow> ustring decoded" where
  "scanstring begin acc [] = Inl (Unterminated_string, begin)"
| "scanstring begin acc (c # cs) =
     (if c = CHR 0x22 then Inr (acc, cs)
      else if c = CHR 0x5C then
        (case cs of
           [] \<Rightarrow> Inl (Unterminated_string, begin)
         | esc # cs' \<Rightarrow>
            if esc \<noteq> CHR ''u'' then
              (case backslash esc of
                 None \<Rightarrow> Inl (Invalid_escape esc, cs)
               | Some ch \<Rightarrow> scanstring begin (acc @ [ch]) cs')
            else
              (case decode_uXXXX cs' of
                 None \<Rightarrow> Inl (Invalid_uXXXX, cs)
               | Some uni \<Rightarrow>
                  (let rest = drop 4 cs' in
                   if 0xD800 \<le> uni \<and> uni \<le> 0xDBFF \<and> startswith rest [CHR 0x5C, CHR ''u''] then
                     (case decode_uXXXX (drop 2 rest) of
                        None \<Rightarrow> Inl (Invalid_uXXXX, drop 1 rest)
                      | Some uni2 \<Rightarrow>
                         if 0xDC00 \<le> uni2 \<and> uni2 \<le> 0xDFFF then
                           scanstring begin
                             (acc @ [0x10000 + ((uni - 0xD800) * 1024 + (uni2 - 0xDC00))])
                             (drop 6 rest)
                         else scanstring begin (acc @ [uni]) rest)
                   else scanstring begin (acc @ [uni]) rest)))
      else if (of_char c :: nat) < 0x20 then Inl (Invalid_control c, cs)
      else scanstring begin (acc @ [of_char c]) cs)"

text \<open>
  \<^verbatim>\<open>NUMBER_RE = (-?(?:0|[1-9][0-9]*))(\.[0-9]+)?([eE][-+]?[0-9]+)?\<close>: the integer part,
  the fraction and the exponent (empty when the optional group does not match), and
  the text after the match.
\<close>

definition match_integer :: "string \<Rightarrow> (string \<times> string) option" where
  "match_integer s =
     (let sign = (if startswith s ''-'' then ''-'' else []);
          s1 = drop (length sign) s
      in case s1 of
           [] \<Rightarrow> None
         | d # s2 \<Rightarrow>
            if d = CHR ''0'' then Some (sign @ ''0'', s2)
            else if is_digit d then
              Some (sign @ d # takeWhile is_digit s2, dropWhile is_digit s2)
            else None)"

definition match_frac :: "string \<Rightarrow> string \<times> string" where
  "match_frac s =
     (case s of
        [] \<Rightarrow> ([], s)
      | c # cs \<Rightarrow>
         if c = CHR ''.'' \<and> takeWhile is_digit cs \<noteq> []
         then (c # takeWhile is_digit cs, dropWhile is_digit cs)
         else ([], s))"

definition match_exp :: "string \<Rightarrow> string \<times> string" where
  "match_exp s =
     (case s of
        [] \<Rightarrow> ([], s)
      | c # cs \<Rightarrow>
         if c = CHR ''e'' \<or> c = CHR ''E'' then
           (let sign = (if startswith cs ''-'' then ''-''
                        else if startswith cs ''+'' then ''+'' else []);
                ds = drop (length sign) cs
            in if takeWhile is_digit ds \<noteq> []
               then (c # sign @ takeWhile is_digit ds, dropWhile is_digit ds)
               else ([], s))
         else ([], s))"

definition py_int_signed :: "string \<Rightarrow> int" where
  "py_int_signed s = (if startswith s ''-'' then - py_int (drop 1 s) else py_int s)"

definition match_number :: "string \<Rightarrow> (json \<times> string) option" where
  "match_number s =
     (case match_integer s of
        None \<Rightarrow> None
      | Some (integer, s1) \<Rightarrow>
         (let (frac, s2) = match_frac s1; (exp, s3) = match_exp s2 in
          if frac = [] \<and> exp = []
          then Some (JInt (py_int_signed integer), s3)
          else Some (JFloat (Float_of_literal (integer @ frac @ exp)), s3)))"

text \<open>
  The scanner and the two loops of the decoder (\<^verbatim>\<open>scan_once\<close>, \<^verbatim>\<open>JSONObject\<close>,
  \<^verbatim>\<open>JSONArray\<close>). The text is the part of the document that is still to be read; an
  error keeps the part at which it was raised, from which its position follows. The
  first argument bounds the number of calls; \<open>json_loads\<close> gives as much as no
  document can use up (\<open>json_loads_fuel_suffices\<close> below), so that \<open>Out_of_fuel\<close> is
  never its result. The messages and positions are those of the decoder of CPython 3.12
  (\<^verbatim>\<open>json/decoder.py\<close>, \<^verbatim>\<open>json/scanner.py\<close>).
\<close>

fun scan_once :: "nat \<Rightarrow> string \<Rightarrow> json decoded"
  and JSONObject_loop :: "nat \<Rightarrow> (ustring \<times> json) list \<Rightarrow> string \<Rightarrow> json decoded"
  and JSONArray_loop :: "nat \<Rightarrow> json list \<Rightarrow> string \<Rightarrow> json decoded"
where
  "scan_once 0 s = Inl (Out_of_fuel, s)"
| "scan_once (Suc n) s =
     (case s of
        [] \<Rightarrow> Inl (Expecting_value, s)
      | c # cs \<Rightarrow>
         if c = CHR 0x22 then
           (case scanstring s [] cs of
              Inl e \<Rightarrow> Inl e
            | Inr (str, rest) \<Rightarrow> Inr (JString str, rest))
         else if c = CHR ''{'' then
           (let s1 = skip_ws cs in
            if startswith s1 ''}'' then Inr (JObject [], drop 1 s1)
            else if startswith s1 [CHR 0x22] then JSONObject_loop n [] s1
            else Inl (Expecting_property_name, s1))
         else if c = CHR ''['' then
           (let s1 = skip_ws cs in
            if startswith s1 '']'' then Inr (JArray [], drop 1 s1)
            else JSONArray_loop n [] s1)
         else if startswith s ''null'' then Inr (JNull, drop 4 s)
         else if startswith s ''true'' then Inr (JBool True, drop 4 s)
         else if startswith s ''false'' then Inr (JBool False, drop 5 s)
         else
           (case match_number s of
              Some r \<Rightarrow> Inr r
            | None \<Rightarrow>
               if startswith s ''NaN'' then Inr (JFloat (Float_of_literal ''NaN''), drop 3 s)
               else if startswith s ''Infinity''
                 then Inr (JFloat (Float_of_literal ''Infinity''), drop 8 s)
               else if startswith s ''-Infinity''
                 then Inr (JFloat (Float_of_literal ''-Infinity''), drop 9 s)
               else Inl (Expecting_value, s)))"
| "JSONObject_loop 0 pairs s = Inl (Out_of_fuel, s)"
| "JSONObject_loop (Suc n) pairs s =
     (case scanstring s [] (drop 1 s) of
        Inl e \<Rightarrow> Inl e
      | Inr (key, s1) \<Rightarrow>
         (let s2 = skip_ws s1 in
          if \<not> startswith s2 '':'' then Inl (Expecting_colon, s2)
          else
            (let s4 = skip_ws (drop 1 s2) in
             case scan_once n s4 of
               Inl e \<Rightarrow> Inl e
             | Inr (v, s5) \<Rightarrow>
                (let pairs' = pairs @ [(key, v)]; s6 = skip_ws s5 in
                 if startswith s6 ''}'' then Inr (JObject (dict pairs'), drop 1 s6)
                 else if \<not> startswith s6 '','' then Inl (Expecting_comma, s6)
                 else
                   (let s7 = skip_ws (drop 1 s6) in
                    if startswith s7 [CHR 0x22] then JSONObject_loop n pairs' s7
                    else Inl (Expecting_property_name, s7))))))"
| "JSONArray_loop 0 vs s = Inl (Out_of_fuel, s)"
| "JSONArray_loop (Suc n) vs s =
     (case scan_once n s of
        Inl e \<Rightarrow> Inl e
      | Inr (v, s1) \<Rightarrow>
         (let vs' = vs @ [v]; s2 = skip_ws s1 in
          if startswith s2 '']'' then Inr (JArray vs', drop 1 s2)
          else if \<not> startswith s2 '','' then Inl (Expecting_comma, s2)
          else JSONArray_loop n vs' (skip_ws (drop 1 s2))))"

text \<open>The text of a \<^verbatim>\<open>JSONDecodeError\<close>: message, line, column and position.\<close>

fun decimal :: "nat \<Rightarrow> string" where
  "decimal n =
     (if n < 10 then [char_of (48 + n)] else decimal (n div 10) @ [char_of (48 + n mod 10)])"

definition hex_digit :: "nat \<Rightarrow> char" where
  "hex_digit d = (if d < 10 then char_of (48 + d) else char_of (87 + d))"

definition py_repr_char :: "char \<Rightarrow> string" where
  "py_repr_char c =
     (let n = (of_char c :: nat) in
      if c = CHR 0x27 then [CHR 0x22, c, CHR 0x22]
      else if c = CHR 0x5C then [CHR 0x27, c, c, CHR 0x27]
      else if c = CHR 0x09 then [CHR 0x27, CHR 0x5C, CHR ''t'', CHR 0x27]
      else if c = CHR 0x0A then [CHR 0x27, CHR 0x5C, CHR ''n'', CHR 0x27]
      else if c = CHR 0x0D then [CHR 0x27, CHR 0x5C, CHR ''r'', CHR 0x27]
      else if n < 32 \<or> (127 \<le> n \<and> n \<le> 160) \<or> n = 173
        then [CHR 0x27, CHR 0x5C, CHR ''x'', hex_digit (n div 16), hex_digit (n mod 16), CHR 0x27]
      else [CHR 0x27, c, CHR 0x27])"

definition msg_text :: "json_msg \<Rightarrow> string" where
  "msg_text m =
     (case m of
        Expecting_value \<Rightarrow> ''Expecting value''
      | Extra_data \<Rightarrow> ''Extra data''
      | Unterminated_string \<Rightarrow> ''Unterminated string starting at''
      | Invalid_control c \<Rightarrow> ''Invalid control character '' @ py_repr_char c @ '' at''
      | Invalid_escape c \<Rightarrow> ''Invalid '' @ [CHR 0x5C] @ ''escape: '' @ py_repr_char c
      | Invalid_uXXXX \<Rightarrow> ''Invalid '' @ [CHR 0x5C] @ ''uXXXX escape''
      | Expecting_property_name \<Rightarrow> ''Expecting property name enclosed in double quotes''
      | Expecting_colon \<Rightarrow> ''Expecting '' @ [CHR 0x27] @ '':'' @ [CHR 0x27] @ '' delimiter''
      | Expecting_comma \<Rightarrow> ''Expecting '' @ [CHR 0x27] @ '','' @ [CHR 0x27] @ '' delimiter''
      | Out_of_fuel \<Rightarrow> ''maximum recursion depth exceeded'')"

definition JSONDecodeError :: "json_msg \<Rightarrow> string \<Rightarrow> nat \<Rightarrow> string" where
  "JSONDecodeError m doc pos =
     (let seen = take pos doc;
          lineno = length (filter (\<lambda>c. c = CHR 0x0A) seen) + 1;
          colno = length (takeWhile (\<lambda>c. c \<noteq> CHR 0x0A) (rev seen)) + 1
      in msg_text m @ '': line '' @ decimal lineno @ '' column '' @ decimal colno
           @ '' (char '' @ decimal pos @ '')'')"

definition json_loads :: "string \<Rightarrow> string + json" where
  "json_loads doc =
     (case scan_once (2 * length doc + 2) (skip_ws doc) of
        Inl (m, at) \<Rightarrow> Inl (JSONDecodeError m doc (length doc - length at))
      | Inr (obj, rest) \<Rightarrow>
         (let r = skip_ws rest in
          if r = [] then Inr obj
          else Inl (JSONDecodeError Extra_data doc (length doc - length r))))"

section \<open>Review requester: \<^verbatim>\<open>review_pull_request\<close> (groq_api.py, lines 57-68)\<close>

text \<open>
  \<^verbatim>\<open>re.sub(r"^```json|```$", "", text, flags=re.MULTILINE)\<close>, read from left to right.
  At each position the first alternative is tried first: the opening fence, at the start
  of the text or right after a newline. The second is three backquotes at the end of
  the text or right before a newline. A match is removed and the scan goes on behind
  it; otherwise the character is kept. The flag tells whether the position is at the
  start of a line.
\<close>

definition newline :: char where
  "newline = CHR 0x0A"

fun re_sub_fences :: "bool \<Rightarrow> string \<Rightarrow> string" where
  "re_sub_fences bol [] = []"
| "re_sub_fences bol (c # cs) =
     (if bol \<and> startswith (c # cs) ''```json'' then re_sub_fences False (drop 6 cs)
      else if startswith (c # cs) ''```'' \<and> (drop 2 cs = [] \<or> startswith (drop 2 cs) [newline])
        then re_sub_fences False (drop 2 cs)
      else c # re_sub_fences (c = newline) cs)"

text \<open>
  The function takes the outcome of the completion request in place of the client:
  \<open>Inl e\<close> when the request, or the reading of the reply's text, raises an exception
  whose text is \<open>e\<close>, and \<open>Inr raw\<close> when the model's reply is \<open>raw\<close>. The result is
  the Python value the function returns: the decoded reply, or a string that starts with
  \<^verbatim>\<open>Error: \<close> when anything raised. The construction of the client, before the
  \<^verbatim>\<open>try\<close> block, is taken to succeed.
\<close>

definition json_str :: "string \<Rightarrow> string" where
  "json_str raw = strip (re_sub_fences True (strip raw))"

definition groq_review_pull_request :: "(string \<Rightarrow> ustring + string) \<Rightarrow> string \<Rightarrow> json" where
  "groq_review_pull_request completion diff_content =
     (case completion diff_content of
        Inl e \<Rightarrow> JString (u ''Error: '' @ e)
      | Inr raw \<Rightarrow>
         (case json_loads (json_str raw) of
            Inl e \<Rightarrow> JString (u ''Error: '' @ u e)
          | Inr data \<Rightarrow> data))"

section \<open>The endpoint: \<^verbatim>\<open>review_pull_request\<close> (main.py, lines 214-289)\<close>

record PRReviewRequest =
  pr_url :: string
  github_token :: "string option"

record session =
  access_token :: string
  user :: json

record PRReviewResponse =
  summary :: ustring
  issues :: "(ustring \<times> json) list list"
  suggestions :: "ustring list"
  score :: "pyfloat option"

text \<open>What the endpoint reads of a response of GitHub: the status, the \<^verbatim>\<open>message\<close>
  field of its JSON body when there is one, and its text.\<close>

record response =
  status_code :: nat
  message :: "ustring option"
  body_text :: string

text \<open>
  The surroundings of a request: the process-wide session dictionary, GitHub as a
  function from URL and headers to a response, the completion request of the review
  model, and what the response model does with values that are not of the declared
  types (whether it converts or rejects them depends on the version of the validation
  library).
\<close>

record env =
  sessions :: "string \<rightharpoonup> session"
  http_get :: "string \<Rightarrow> (string \<times> string) list \<Rightarrow> response"
  completion :: "string \<Rightarrow> ustring + string"
  coerce :: "(string \<times> json) list \<Rightarrow> exn + PRReviewResponse"

text \<open>Lines 224-242: from the token of the request to the headers for GitHub.\<close>

definition authorization_headers ::
  "(string \<rightharpoonup> session) \<Rightarrow> string option \<Rightarrow> exn + (string \<times> string) list" where
  "authorization_headers sess token =
     (case token of
        None \<Rightarrow> Inl (HTTPException 401 (u ''GitHub authentication required. Please login first.''))
      | Some t \<Rightarrow>
         if t = [] then
           Inl (HTTPException 401 (u ''GitHub authentication required. Please login first.''))
         else if startswith t ''session_'' then
           (case sess t of
              Some entry \<Rightarrow> Inr (dict_set [] ''Authorization'' (''token '' @ access_token entry))
            | None \<Rightarrow> Inl (HTTPException 401 (u ''Invalid session. Please login again.'')))
         else Inr (dict_set [] ''Authorization'' (''token '' @ t)))"

text \<open>Lines 282-287: the dictionary built from the review.\<close>

definition formatted_result :: "(ustring \<times> json) list \<Rightarrow> (string \<times> json) list" where
  "formatted_result review_result =
     [(''summary'', dict_get review_result (u ''review'') (JString (u ''Review completed''))),
      (''issues'', dict_get review_result (u ''errors'') (JArray [])),
      (''suggestions'', JArray []),
      (''score'', dict_get review_result (u ''review_score'') (JFloat (Float_of_literal ''0.0'')))]"

text \<open>
  Line 289, \<^verbatim>\<open>PRReviewResponse(**formatted_result)\<close>. A string for \<^verbatim>\<open>summary\<close>, a list
  of dictionaries for \<^verbatim>\<open>issues\<close>, a list of strings for \<^verbatim>\<open>suggestions\<close> and, for
  \<^verbatim>\<open>score\<close>, a float, \<^verbatim>\<open>None\<close> or an integer that a float holds exactly are taken as they
  are. Everything else is left to \<open>coerce\<close>.
\<close>

fun as_dicts :: "json list \<Rightarrow> (ustring \<times> json) list list option" where
  "as_dicts [] = Some []"
| "as_dicts (JObject d # xs) = (case as_dicts xs of None \<Rightarrow> None | Some ds \<Rightarrow> Some (d # ds))"
| "as_dicts (_ # xs) = None"

fun as_strings :: "json list \<Rightarrow> ustring list option" where
  "as_strings [] = Some []"
| "as_strings (JString s # xs) = (case as_strings xs of None \<Rightarrow> None | Some ss \<Rightarrow> Some (s # ss))"
| "as_strings (_ # xs) = None"

fun as_score :: "json \<Rightarrow> pyfloat option option" where
  "as_score JNull = Some None"
| "as_score (JFloat f) = Some (Some f)"
| "as_score (JInt n) = (if \<bar>n\<bar> \<le> 2 ^ 53 then Some (Some (Float_of_int n)) else None)"
| "as_score _ = None"

definition PRReviewResponse_init ::
  "((string \<times> json) list \<Rightarrow> exn + PRReviewResponse) \<Rightarrow> (string \<times> json) list
     \<Rightarrow> exn + PRReviewResponse" where
  "PRReviewResponse_init lax kwargs =
     (case (map_of kwargs ''summary'', map_of kwargs ''issues'', map_of kwargs ''suggestions'',
            map_of kwargs ''score'') of
        (Some (JString s), Some (JArray xs), Some (JArray ys), Some sc) \<Rightarrow>
          (case (as_dicts xs, as_strings ys, as_score sc) of
             (Some ds, Some ss, Some f) \<Rightarrow>
               Inr \<lparr>summary = s, issues = ds, suggestions = ss, score = f\<rparr>
           | _ \<Rightarrow> lax kwargs)
      | _ \<Rightarrow> lax kwargs)"

text \<open>
  Lines 274-289: what the endpoint does with the value of the review requester.
  Item assignment on anything but a dictionary raises \<^verbatim>\<open>TypeError\<close>. The dictionary
  \<open>with_number\<close> is \<^verbatim>\<open>review_result\<close> after line 279.
\<close>

definition with_number :: "(ustring \<times> json) list \<Rightarrow> int \<Rightarrow> (ustring \<times> json) list" where
  "with_number review_result pr_number = dict_set review_result (u ''pr_number'') (JInt pr_number)"

definition review_response ::
  "((string \<times> json) list \<Rightarrow> exn + PRReviewResponse) \<Rightarrow> int \<Rightarrow> json \<Rightarrow> exn + PRReviewResponse" where
  "review_response lax pr_number review_result =
     (case review_result of
        JString s \<Rightarrow>
          if startswith s (u ''Error:'')
          then Inl (HTTPException 500 (u ''Groq API error: '' @ s))
          else Inl TypeError
      | JObject d \<Rightarrow> PRReviewResponse_init lax (formatted_result (with_number d pr_number))
      | _ \<Rightarrow> Inl TypeError)"

definition py_str_int :: "int \<Rightarrow> string" where
  "py_str_int n = (if n < 0 then ''-'' @ decimal (nat (- n)) else decimal (nat n))"

definition pulls_url :: "string \<Rightarrow> string \<Rightarrow> int \<Rightarrow> string" where
  "pulls_url owner repo pr_number =
     ''https://api.github.com/repos/'' @ owner @ ''/'' @ repo @ ''/pulls/'' @ py_str_int pr_number"

definition review_pull_request :: "env \<Rightarrow> PRReviewRequest \<Rightarrow> exn + PRReviewResponse" where
  "review_pull_request e request =
     (case extract_pr_info (pr_url request) of
        Inl _ \<Rightarrow> Inl (HTTPException 400 (u ''Invalid GitHub PR URL''))
      | Inr (owner, repo, pr_number) \<Rightarrow>
         (case authorization_headers (sessions e) (github_token request) of
            Inl err \<Rightarrow> Inl err
          | Inr headers \<Rightarrow>
             (let pr_response = http_get e (pulls_url owner repo pr_number) headers in
              if status_code pr_response = 401 then
                Inl (HTTPException 401 (u ''GitHub authentication failed. Please login again.''))
              else if status_code pr_response \<noteq> 200 then
                Inl (HTTPException 400
                      (u ''Failed to fetch PR details: ''
                         @ (case message pr_response of
                              None \<Rightarrow> u ''Unknown error'' | Some m \<Rightarrow> m)))
              else
                (let diff_response =
                       http_get e (pulls_url owner repo pr_number)
                         (dict_set headers ''Accept'' ''application/vnd.github.v3.diff'')
                 in if status_code diff_response \<noteq> 200 then
                      Inl (HTTPException 400 (u ''Failed to fetch PR diff''))
                    else
                      review_response (coerce e) pr_number
                        (groq_review_pull_request (completion e) (body_text diff_response))))))"

text \<open>The body of the HTTP response: the fields of the response model, in their order.\<close>

definition response_body :: "PRReviewResponse \<Rightarrow> (string \<times> json) list" where
  "response_body r =
     [(''summary'', JString (summary r)),
      (''issues'', JArray (map JObject (issues r))),
      (''suggestions'', JArray (map JString (suggestions r))),
      (''score'', (case score r of None \<Rightarrow> JNull | Some f \<Rightarrow> JFloat f))]"

text \<open>Whether a text occurs inside another.\<close>

fun contains :: "'a list \<Rightarrow> 'a list \<Rightarrow> bool" where
  "contains [] p = (p = [])"
| "contains (c # cs) p = (startswith (c # cs) p \<or> contains cs p)"

text \<open>Surroundings for concrete requests: a model whose reply is \<open>raw\<close> whatever the
  diff, and a response model that rejects what is not of the declared types.\<close>

definition replies :: "string \<Rightarrow> string \<Rightarrow> ustring + string" where
  "replies raw diff_content = Inr raw"

definition rejects :: "(string \<times> json) list \<Rightarrow> exn + PRReviewResponse" where
  "rejects kwargs = Inl ValidationError"

definition raises :: "ustring \<Rightarrow> string \<Rightarrow> ustring + string" where
  "raises e diff_content = Inl e"

definition github_ok :: "string \<Rightarrow> (string \<times> string) list \<Rightarrow> response" where
  "github_ok url headers = \<lparr>status_code = 200, message = None, body_text = ''diff --git a/x b/x''\<rparr>"

definition no_sessions :: "string \<rightharpoonup> session" where
  "no_sessions = Map.empty"

definition one_session :: "string \<rightharpoonup> session" where
  "one_session = [''session_42'' \<mapsto> \<lparr>access_token = ''gho_stored'', user = JNull\<rparr>]"

text \<open>
  For the proof that the decoder never uses up its bound: a result is \<open>good\<close> for a
  text when it is an error other than \<open>Out_of_fuel\<close>, or a value with a rest that is
  shorter than the text.
\<close>

definition good :: "string \<Rightarrow> 'a decoded \<Rightarrow> bool" where
  "good s r = (case r of Inl (m, at) \<Rightarrow> m \<noteq> Out_of_fuel | Inr (v, rest) \<Rightarrow> length rest < length s)"

section \<open>Properties of the PR reference parser\<close>

subsection \<open>Literals and runs\<close>




subsection \<open>The tail of the patterns\<close>


lemma match_tail_sound:
  assumes "match_tail s = Some (g1, g2, g3)"
  shows "g1 \<noteq> [] \<and> list_all not_slash g1 \<and> g2 \<noteq> [] \<and> list_all not_slash g2
         \<and> g3 \<noteq> [] \<and> list_all is_digit g3"
  using assms
  by (auto simp: match_tail_def Let_def list_all_iff split: option.splits if_splits
      dest: set_takeWhileD)

lemma py_int_acc:
  "list_all is_digit ds \<Longrightarrow> 0 \<le> a \<Longrightarrow> 0 \<le> foldl (\<lambda>a c. 10 * a + digit_value c) a ds"
  by (induction ds arbitrary: a) (auto simp: is_digit_def digit_value_def Let_def)

lemma py_int_nonneg: "list_all is_digit ds \<Longrightarrow> 0 \<le> py_int ds"
  by (simp add: py_int_def py_int_acc)

subsection \<open>The loop over the patterns\<close>

lemma first_match_sound:
  assumes "first_match patterns s = Some (g1, g2, g3)"
  shows "g1 \<noteq> [] \<and> list_all not_slash g1 \<and> g2 \<noteq> [] \<and> list_all not_slash g2
         \<and> g3 \<noteq> [] \<and> list_all is_digit g3"
proof -
  from assms obtain t where "match_tail t = Some (g1, g2, g3)"
    by (auto simp: patterns_def pattern1_def pattern2_def pattern3_def Let_def
        split: option.splits)
  then show ?thesis by (rule match_tail_sound)
qed


lemmas parser_eval =
  extract_pr_info_def cleaned_url_def strip_def lstrip_at_def isspace_def patterns_def
  pattern1_def pattern2_def pattern3_def after_literal_def startswith_def match_tail_def
  not_slash_def is_digit_def py_int_def digit_value_def invalid_url_detail_def

subsection \<open>Accepted shapes\<close>



subsection \<open>The invariant of a parsed reference\<close>

text \<open>
  Claim C7, as stated, asks for a number strictly greater than 0. The pattern
  \<^verbatim>\<open>(\d+)\<close> accepts \<^verbatim>\<open>0\<close>, and nothing checks the number afterwards.
\<close>

theorem extract_pr_info_number_zero:
  "extract_pr_info ''github.com/a/b/pull/0'' = Inr (''a'', ''b'', 0) \<and> \<not> (0::int) < 0"
  by (simp add: parser_eval)

text \<open>
  Claim C7, amended. For every input that \<open>extract_pr_info\<close> accepts, owner and
  repository are non-empty and contain no slash, and the number is greater than or
  equal to 0.
\<close>

theorem extract_pr_info_invariant:
  assumes "extract_pr_info url = Inr (owner, repo, n)"
  shows "owner \<noteq> [] \<and> CHR ''/'' \<notin> set owner \<and> repo \<noteq> [] \<and> CHR ''/'' \<notin> set repo \<and> 0 \<le> n"
proof -
  from assms obtain g3
    where m: "first_match patterns (cleaned_url url) = Some (owner, repo, g3)"
      and n: "n = py_int g3"
    by (auto simp: extract_pr_info_def split: option.splits)
  from first_match_sound [OF m] n show ?thesis
    by (auto simp: list_all_iff not_slash_def py_int_nonneg)
qed

theorem extract_pr_info_invariant_witness:
  "extract_pr_info ''github.com/acme/widgets/pull/7'' = Inr (''acme'', ''widgets'', 7) \<and>
   ''acme'' \<noteq> [] \<and> CHR ''/'' \<notin> set ''acme'' \<and> ''widgets'' \<noteq> [] \<and> CHR ''/'' \<notin> set ''widgets''
   \<and> (0::int) \<le> 7"
proof -
  have e: "extract_pr_info ''github.com/acme/widgets/pull/7'' = Inr (''acme'', ''widgets'', 7)"
    by (simp add: parser_eval)
  from extract_pr_info_invariant [OF e] e show ?thesis by simp
qed

subsection \<open>Cleaning the input\<close>





section \<open>Properties of the review requester and of the endpoint\<close>

subsection \<open>Dictionaries\<close>

lemma map_of_dict_set: "map_of (dict_set d k v) = (map_of d)(k \<mapsto> v)"
  by (induction d k v rule: dict_set.induct) (auto simp: fun_eq_iff)

lemma dict_get_dict_set:
  "dict_get (dict_set d k v) k' dflt = (if k' = k then v else dict_get d k' dflt)"
  by (simp add: dict_get_def map_of_dict_set)

lemma u_inject: "u s = u t \<longleftrightarrow> s = t"
  by (simp add: u_def inj_map_eq_map inj_def)

lemma pr_number_key:
  "u ''review'' \<noteq> u ''pr_number''" "u ''errors'' \<noteq> u ''pr_number''"
  "u ''review_score'' \<noteq> u ''pr_number''"
  by (simp_all add: u_inject)

lemma formatted_result_with_number:
  "formatted_result (with_number d n) = formatted_result d"
  by (simp add: formatted_result_def with_number_def dict_get_dict_set pr_number_key)

subsection \<open>A fenced reply\<close>

lemma fenced_json_str:
  \<open>json_str (''```json'' @ [newline] @ ''{"review":"ok","review_score":90,"errors":[]}'' @ [newline] @ ''```'')
     = ''{"review":"ok","review_score":90,"errors":[]}''\<close>
  by code_simp

lemma fenced_json_loads:
  \<open>json_loads ''{"review":"ok","review_score":90,"errors":[]}''
     = Inr (JObject [(u ''review'', JString (u ''ok'')), (u ''review_score'', JInt 90),
                     (u ''errors'', JArray [])])\<close>
  by code_simp

text \<open>
  Claim C1. For the reply that holds the JSON object
  \<^verbatim>\<open>{"review":"ok","review_score":90,"errors":[]}\<close> between the fences \<^verbatim>\<open>```json\<close> and
  \<^verbatim>\<open>```\<close>, each on a line of its own, the fences are stripped, the text is decoded, and
  the endpoint's review is exactly summary \<^verbatim>\<open>ok\<close>, no issues, no suggestions and the score
  90 (as the float of the integer 90), whatever the diff and the pull number are.
\<close>

theorem fenced_reply_review:
  \<open>json_str (''```json'' @ [newline] @ ''{"review":"ok","review_score":90,"errors":[]}'' @ [newline] @ ''```'')
     = ''{"review":"ok","review_score":90,"errors":[]}''
   \<and> groq_review_pull_request
        (replies (''```json'' @ [newline] @ ''{"review":"ok","review_score":90,"errors":[]}'' @ [newline] @ ''```''))
        diff_content
     = JObject [(u ''review'', JString (u ''ok'')), (u ''review_score'', JInt 90),
                (u ''errors'', JArray [])]
   \<and> review_response lax pr_number
        (groq_review_pull_request
          (replies (''```json'' @ [newline] @ ''{"review":"ok","review_score":90,"errors":[]}'' @ [newline] @ ''```''))
          diff_content)
     = Inr \<lparr>summary = u ''ok'', issues = [], suggestions = [], score = Some (Float_of_int 90)\<rparr>\<close>
proof -
  let ?raw = \<open>''```json'' @ [newline] @ ''{"review":"ok","review_score":90,"errors":[]}'' @ [newline] @ ''```''\<close>
  let ?d = "[(u ''review'', JString (u ''ok'')), (u ''review_score'', JInt 90), (u ''errors'', JArray [])]"
  have g: "groq_review_pull_request (replies ?raw) diff_content = JObject ?d"
    unfolding groq_review_pull_request_def replies_def sum.case fenced_json_str fenced_json_loads
    by simp
  have f: "formatted_result ?d =
             [(''summary'', JString (u ''ok'')), (''issues'', JArray []), (''suggestions'', JArray []),
              (''score'', JInt 90)]"
    by (simp add: formatted_result_def dict_get_def u_inject)
  have r: "review_response lax pr_number (JObject ?d)
             = Inr \<lparr>summary = u ''ok'', issues = [], suggestions = [], score = Some (Float_of_int 90)\<rparr>"
    unfolding review_response_def json.case formatted_result_with_number f
    by (simp add: PRReviewResponse_init_def)
  show ?thesis
    unfolding g r using fenced_json_str by simp
qed

subsection \<open>Failures of the review\<close>

lemma u_append: "u (a @ b) = u a @ u b"
  by (simp add: u_def)

lemma error_prefix: "startswith (u ''Error: '' @ e) (u ''Error:'')"
  by (simp add: startswith_def u_def)

lemma review_response_error:
  "review_response lax n (JString (u ''Error: '' @ e))
     = Inl (HTTPException 500 (u ''Groq API error: Error: '' @ e))"
  by (simp add: review_response_def error_prefix) (simp add: u_def)

lemma review_pull_request_review:
  assumes "extract_pr_info (pr_url request) = Inr (owner, repo, n)"
    and "authorization_headers (sessions e) (github_token request) = Inr headers"
    and "status_code (http_get e (pulls_url owner repo n) headers) = 200"
    and "http_get e (pulls_url owner repo n)
           (dict_set headers ''Accept'' ''application/vnd.github.v3.diff'') = diff_response"
    and "status_code diff_response = 200"
  shows "review_pull_request e request
           = review_response (coerce e) n
               (groq_review_pull_request (completion e) (body_text diff_response))"
  using assms by (simp add: review_pull_request_def Let_def)




text \<open>
  Claim C10. A failure of the review requester is a returned string that starts with
  \<^verbatim>\<open>Error:\<close>. So there is a reply that is well-formed JSON, the JSON string
  \<^verbatim>\<open>"Error: x"\<close>, which is decoded without error and which the endpoint all the same
  takes for a failure: it answers with status 500 and no review.
\<close>

theorem error_string_reply_is_failure:
  \<open>groq_review_pull_request (raises e) diff_content = JString (u ''Error: '' @ e)
   \<and> json_loads (json_str ''"Error: x"'') = Inr (JString (u ''Error: x''))
   \<and> groq_review_pull_request (replies ''"Error: x"'') diff_content = JString (u ''Error: x'')
   \<and> review_response lax n (groq_review_pull_request (replies ''"Error: x"'') diff_content)
       = Inl (HTTPException 500 (u ''Groq API error: Error: x''))
   \<and> review_pull_request
         \<lparr>sessions = no_sessions, http_get = github_ok, completion = replies ''"Error: x"'',
          coerce = lax\<rparr>
         \<lparr>pr_url = ''https://github.com/acme/widgets/pull/42'', github_token = Some ''ghp_rawtoken''\<rparr>
       = Inl (HTTPException 500 (u ''Groq API error: Error: x''))\<close>
proof -
  have l: \<open>json_loads (json_str ''"Error: x"'') = Inr (JString (u ''Error: x''))\<close>
    by code_simp
  have g: \<open>groq_review_pull_request (replies ''"Error: x"'') d = JString (u ''Error: x'')\<close> for d
    by (simp add: groq_review_pull_request_def replies_def l)
  have x: "u ''Error: x'' = u ''Error: '' @ u ''x''"
    by (simp add: u_def)
  have r: "review_response lax n (JString (u ''Error: x''))
             = Inl (HTTPException 500 (u ''Groq API error: Error: x''))" for lax n
    unfolding x review_response_error by (simp add: u_def)
  have p: "extract_pr_info ''https://github.com/acme/widgets/pull/42'' = Inr (''acme'', ''widgets'', 42)"
    by (simp add: parser_eval)
  have a: "authorization_headers no_sessions (Some ''ghp_rawtoken'')
             = Inr [(''Authorization'', ''token ghp_rawtoken'')]"
    by (simp add: authorization_headers_def startswith_def)
  have e: \<open>review_pull_request
         \<lparr>sessions = no_sessions, http_get = github_ok, completion = replies ''"Error: x"'',
          coerce = lax\<rparr>
         \<lparr>pr_url = ''https://github.com/acme/widgets/pull/42'', github_token = Some ''ghp_rawtoken''\<rparr>
       = Inl (HTTPException 500 (u ''Groq API error: Error: x''))\<close>
    by (simp add: review_pull_request_def p a github_ok_def g r)
  show ?thesis
    unfolding g r using l e by (simp add: groq_review_pull_request_def raises_def)
qed

subsection \<open>Normalisation of the review\<close>

text \<open>
  Claim C9, as stated, has the score in the range from 0 to 100. Nothing in the code
  checks or clamps the score: the reply \<^verbatim>\<open>{"review_score":150}\<close> gives a review whose
  score is 150.
\<close>

theorem score_out_of_range:
  \<open>review_response rejects 1 (groq_review_pull_request (replies ''{"review_score":150}'') [])
     = Inr \<lparr>summary = u ''Review completed'', issues = [], suggestions = [],
            score = Some (Float_of_int 150)\<rparr>
   \<and> \<not> (150::int) \<le> 100\<close>
proof -
  have l: \<open>json_loads (json_str ''{"review_score":150}'') = Inr (JObject [(u ''review_score'', JInt 150)])\<close>
    by code_simp
  have g: \<open>groq_review_pull_request (replies ''{"review_score":150}'') [] = JObject [(u ''review_score'', JInt 150)]\<close>
    by (simp add: groq_review_pull_request_def replies_def l)
  have f: "formatted_result [(u ''review_score'', JInt 150)] =
             [(''summary'', JString (u ''Review completed'')), (''issues'', JArray []),
              (''suggestions'', JArray []), (''score'', JInt 150)]"
    by (simp add: formatted_result_def dict_get_def u_inject)
  show ?thesis
    unfolding g review_response_def json.case formatted_result_with_number f
    by (simp add: PRReviewResponse_init_def)
qed

text \<open>
  Claim C9, amended. For every reply whose text, fences stripped, decodes to a JSON
  object, the dictionary the endpoint builds has as summary the object's \<^verbatim>\<open>review\<close>
  field (\<^verbatim>\<open>Review completed\<close> when it is missing), as issues its \<^verbatim>\<open>errors\<close> field (the
  empty list when missing), no suggestions, and as score its \<^verbatim>\<open>review_score\<close> field
  (\<^verbatim>\<open>0.0\<close> when missing), whatever these values are: no range is imposed on the score.
  When the summary is a string, the issues are a list of objects and the score is a
  float, null or an integer that a float holds exactly, the endpoint returns exactly
  these values as its review.
\<close>

theorem review_response_normalizes:
  assumes "model diff_content = Inr raw" and "json_loads (json_str raw) = Inr (JObject d)"
  shows "groq_review_pull_request model diff_content = JObject d
    \<and> formatted_result (with_number d n) =
        [(''summary'', dict_get d (u ''review'') (JString (u ''Review completed''))),
         (''issues'', dict_get d (u ''errors'') (JArray [])),
         (''suggestions'', JArray []),
         (''score'', dict_get d (u ''review_score'') (JFloat (Float_of_literal ''0.0'')))]
    \<and> (dict_get d (u ''review'') (JString (u ''Review completed'')) = JString s
       \<and> dict_get d (u ''errors'') (JArray []) = JArray xs \<and> as_dicts xs = Some ds
       \<and> as_score (dict_get d (u ''review_score'') (JFloat (Float_of_literal ''0.0''))) = Some f
       \<longrightarrow> review_response lax n (groq_review_pull_request model diff_content)
             = Inr \<lparr>summary = s, issues = ds, suggestions = [], score = f\<rparr>)"
proof -
  have g: "groq_review_pull_request model diff_content = JObject d"
    using assms by (simp add: groq_review_pull_request_def)
  have f: "formatted_result (with_number d n) =
        [(''summary'', dict_get d (u ''review'') (JString (u ''Review completed''))),
         (''issues'', dict_get d (u ''errors'') (JArray [])),
         (''suggestions'', JArray []),
         (''score'', dict_get d (u ''review_score'') (JFloat (Float_of_literal ''0.0'')))]"
    unfolding formatted_result_with_number by (simp add: formatted_result_def)
  show ?thesis
    unfolding g review_response_def json.case f
    by (simp add: PRReviewResponse_init_def)
qed

theorem review_response_normalizes_witness:
  \<open>groq_review_pull_request (replies ''{"review":"fine","errors":[{"line":3}]}'') []
     = JObject [(u ''review'', JString (u ''fine'')), (u ''errors'', JArray [JObject [(u ''line'', JInt 3)]])]
   \<and> review_response rejects 7
        (groq_review_pull_request (replies ''{"review":"fine","errors":[{"line":3}]}'') [])
     = Inr \<lparr>summary = u ''fine'', issues = [[(u ''line'', JInt 3)]], suggestions = [],
            score = Some (Float_of_literal ''0.0'')\<rparr>\<close>
proof -
  let ?raw = \<open>''{"review":"fine","errors":[{"line":3}]}''\<close>
  let ?d = "[(u ''review'', JString (u ''fine'')), (u ''errors'', JArray [JObject [(u ''line'', JInt 3)]])]"
  have r: "replies ?raw [] = Inr ?raw"
    by (simp add: replies_def)
  have l: "json_loads (json_str ?raw) = Inr (JObject ?d)"
    by code_simp
  note t = review_response_normalizes [of "replies ?raw" "[]" ?raw ?d 7 "u ''fine''"
      "[JObject [(u ''line'', JInt 3)]]" "[[(u ''line'', JInt 3)]]" "Some (Float_of_literal ''0.0'')"
      rejects, OF r l]
  have h: "dict_get ?d (u ''review'') (JString (u ''Review completed'')) = JString (u ''fine'')
       \<and> dict_get ?d (u ''errors'') (JArray []) = JArray [JObject [(u ''line'', JInt 3)]]
       \<and> as_dicts [JObject [(u ''line'', JInt 3)]] = Some [[(u ''line'', JInt 3)]]
       \<and> as_score (dict_get ?d (u ''review_score'') (JFloat (Float_of_literal ''0.0'')))
            = Some (Some (Float_of_literal ''0.0''))"
    by (simp add: dict_get_def u_inject)
  from t [THEN conjunct1] t [THEN conjunct2, THEN conjunct2, THEN mp, OF h]
  show ?thesis by (rule conjI)
qed

subsection \<open>The pull number in the response\<close>

text \<open>
  Claim C3 asks for \<^verbatim>\<open>pr_number\<close> in the body of a successful response. Line 279 adds
  the number to the dictionary \<^verbatim>\<open>review_result\<close> ("Add PR number to the response"), but
  the response is built from the four entries of \<^verbatim>\<open>formatted_result\<close>, and the response
  model has no such field: the body of a successful response has the fields summary,
  issues, suggestions and score, and no pull number.
\<close>

theorem response_lacks_pr_number:
  \<open>map_of (with_number d n) (u ''pr_number'') = Some (JInt n)
   \<and> map_of (formatted_result (with_number d n)) ''pr_number'' = None
   \<and> map fst (response_body r) = [''summary'', ''issues'', ''suggestions'', ''score'']
   \<and> review_pull_request
         \<lparr>sessions = no_sessions, http_get = github_ok,
          completion = replies ''{"review":"ok","review_score":90,"errors":[]}'', coerce = rejects\<rparr>
         \<lparr>pr_url = ''https://github.com/acme/widgets/pull/42'', github_token = Some ''ghp_rawtoken''\<rparr>
       = Inr \<lparr>summary = u ''ok'', issues = [], suggestions = [], score = Some (Float_of_int 90)\<rparr>
   \<and> response_body \<lparr>summary = u ''ok'', issues = [], suggestions = [], score = Some (Float_of_int 90)\<rparr>
       = [(''summary'', JString (u ''ok'')), (''issues'', JArray []), (''suggestions'', JArray []),
          (''score'', JFloat (Float_of_int 90))]\<close>
proof -
  let ?d = "[(u ''review'', JString (u ''ok'')), (u ''review_score'', JInt 90), (u ''errors'', JArray [])]"
  have a: "map_of (with_number d n) (u ''pr_number'') = Some (JInt n)"
    by (simp add: with_number_def map_of_dict_set)
  have b: "map_of (formatted_result (with_number d n)) ''pr_number'' = None"
    by (simp add: formatted_result_def)
  have c: "map fst (response_body r) = [''summary'', ''issues'', ''suggestions'', ''score'']"
    by (simp add: response_body_def)
  have l: \<open>json_loads (json_str ''{"review":"ok","review_score":90,"errors":[]}'') = Inr (JObject ?d)\<close>
    by code_simp
  have g: \<open>groq_review_pull_request (replies ''{"review":"ok","review_score":90,"errors":[]}'') t = JObject ?d\<close> for t
    by (simp add: groq_review_pull_request_def replies_def l)
  have f: "formatted_result ?d =
             [(''summary'', JString (u ''ok'')), (''issues'', JArray []), (''suggestions'', JArray []),
              (''score'', JInt 90)]"
    by (simp add: formatted_result_def dict_get_def u_inject)
  have r: "review_response rejects k (JObject ?d)
             = Inr \<lparr>summary = u ''ok'', issues = [], suggestions = [], score = Some (Float_of_int 90)\<rparr>" for k
    unfolding review_response_def json.case formatted_result_with_number f
    by (simp add: PRReviewResponse_init_def)
  have p: "extract_pr_info ''https://github.com/acme/widgets/pull/42'' = Inr (''acme'', ''widgets'', 42)"
    by (simp add: parser_eval)
  have h: "authorization_headers no_sessions (Some ''ghp_rawtoken'')
             = Inr [(''Authorization'', ''token ghp_rawtoken'')]"
    by (simp add: authorization_headers_def startswith_def)
  have e: \<open>review_pull_request
         \<lparr>sessions = no_sessions, http_get = github_ok,
          completion = replies ''{"review":"ok","review_score":90,"errors":[]}'', coerce = rejects\<rparr>
         \<lparr>pr_url = ''https://github.com/acme/widgets/pull/42'', github_token = Some ''ghp_rawtoken''\<rparr>
       = Inr \<lparr>summary = u ''ok'', issues = [], suggestions = [], score = Some (Float_of_int 90)\<rparr>\<close>
    by (simp add: review_pull_request_def p h github_ok_def g r)
  have s: "response_body \<lparr>summary = u ''ok'', issues = [], suggestions = [], score = Some (Float_of_int 90)\<rparr>
       = [(''summary'', JString (u ''ok'')), (''issues'', JArray []), (''suggestions'', JArray []),
          (''score'', JFloat (Float_of_int 90))]"
    by (simp add: response_body_def)
  from a b c e s show ?thesis by blast
qed

subsection \<open>The credential\<close>

text \<open>
  Claim C5. Without a token, or with the empty token, the request fails with status 401
  (authentication required). A token that starts with \<^verbatim>\<open>session_\<close> is looked up in the
  session dictionary: without an entry the request fails with status 401 (invalid
  session), with one the credential sent to GitHub is the stored access token. Any other
  non-empty token is sent as it is.
\<close>

theorem authorization_headers_cases:
  "authorization_headers sess None
     = Inl (HTTPException 401 (u ''GitHub authentication required. Please login first.''))
   \<and> authorization_headers sess (Some [])
     = Inl (HTTPException 401 (u ''GitHub authentication required. Please login first.''))
   \<and> (startswith t ''session_'' \<and> sess t = None
        \<longrightarrow> authorization_headers sess (Some t)
            = Inl (HTTPException 401 (u ''Invalid session. Please login again.'')))
   \<and> (startswith t ''session_'' \<and> sess t = Some entry
        \<longrightarrow> authorization_headers sess (Some t)
            = Inr [(''Authorization'', ''token '' @ access_token entry)])
   \<and> (t \<noteq> [] \<and> \<not> startswith t ''session_''
        \<longrightarrow> authorization_headers sess (Some t) = Inr [(''Authorization'', ''token '' @ t)])"
  by (auto simp: authorization_headers_def startswith_def)

theorem authorization_headers_cases_witness:
  "authorization_headers one_session (Some ''session_abc'')
     = Inl (HTTPException 401 (u ''Invalid session. Please login again.''))
   \<and> authorization_headers one_session (Some ''session_42'')
     = Inr [(''Authorization'', ''token gho_stored'')]
   \<and> authorization_headers one_session (Some ''ghp_rawtoken'')
     = Inr [(''Authorization'', ''token ghp_rawtoken'')]"
proof -
  have a: "startswith ''session_abc'' ''session_'' \<and> one_session ''session_abc'' = None"
    by (simp add: startswith_def one_session_def)
  have b: "startswith ''session_42'' ''session_''
             \<and> one_session ''session_42'' = Some \<lparr>access_token = ''gho_stored'', user = JNull\<rparr>"
    by (simp add: startswith_def one_session_def)
  have c: "''ghp_rawtoken'' \<noteq> [] \<and> \<not> startswith ''ghp_rawtoken'' ''session_''"
    by (simp add: startswith_def)
  note t1 = authorization_headers_cases [of one_session "''session_abc''" "undefined"]
  note t2 = authorization_headers_cases [of one_session "''session_42''"
      "\<lparr>access_token = ''gho_stored'', user = JNull\<rparr>"]
  note t3 = authorization_headers_cases [of one_session "''ghp_rawtoken''" "undefined"]
  have x: "authorization_headers one_session (Some ''session_abc'')
     = Inl (HTTPException 401 (u ''Invalid session. Please login again.''))"
    using t1 a by blast
  have y: "authorization_headers one_session (Some ''session_42'')
     = Inr [(''Authorization'', ''token gho_stored'')]"
    using t2 b by simp
  have z: "authorization_headers one_session (Some ''ghp_rawtoken'')
     = Inr [(''Authorization'', ''token ghp_rawtoken'')]"
    using t3 c by simp
  from x y z show ?thesis by blast
qed

subsection \<open>The message for an invalid URL\<close>

text \<open>
  Claim C6 asks that the message surfaced to the caller contain the original input.
  \<open>extract_pr_info\<close> builds such a message ("provide a helpful error message"), but the
  endpoint, its only caller, catches the exception and raises a new one whose detail
  is the fixed text \<^verbatim>\<open>Invalid GitHub PR URL\<close>: for the input \<^verbatim>\<open>not a url\<close> the
  caller of the endpoint gets a message without the input.
\<close>

theorem invalid_url_detail_dropped:
  "extract_pr_info ''not a url'' = Inl (HTTPException 400 (invalid_url_detail ''not a url''))
   \<and> contains (invalid_url_detail ''not a url'') (u ''not a url'')
   \<and> review_pull_request e \<lparr>pr_url = ''not a url'', github_token = tok\<rparr>
       = Inl (HTTPException 400 (u ''Invalid GitHub PR URL''))
   \<and> \<not> contains (u ''Invalid GitHub PR URL'') (u ''not a url'')"
proof -
  have p: "extract_pr_info ''not a url'' = Inl (HTTPException 400 (invalid_url_detail ''not a url''))"
    by (simp add: extract_pr_info_def cleaned_url_def strip_def lstrip_at_def isspace_def
        patterns_def pattern1_def pattern2_def pattern3_def after_literal_def startswith_def)
  have c: "contains (invalid_url_detail ''not a url'') (u ''not a url'')"
    by code_simp
  have r: "review_pull_request e \<lparr>pr_url = ''not a url'', github_token = tok\<rparr>
       = Inl (HTTPException 400 (u ''Invalid GitHub PR URL''))"
    by (simp add: review_pull_request_def p)
  have n: "\<not> contains (u ''Invalid GitHub PR URL'') (u ''not a url'')"
    by code_simp
  from p c r n show ?thesis by blast
qed

section \<open>The bound of the decoder\<close>

lemma good_Inl [simp]: "good s (Inl (m, at)) \<longleftrightarrow> m \<noteq> Out_of_fuel"
  by (simp add: good_def)

lemma good_Inr [simp]: "good s (Inr (v, rest)) \<longleftrightarrow> length rest < length s"
  by (simp add: good_def)

lemma good_mono: "good s' r \<Longrightarrow> length s' \<le> length s \<Longrightarrow> good s r"
  by (auto simp: good_def split: sum.splits prod.splits)

lemma skip_ws_le: "length (skip_ws s) \<le> length s"
  by (simp add: skip_ws_def length_dropWhile_le)

lemma scanstring_good: "good (c0 # s) (scanstring b acc s)"
proof (induction s arbitrary: b acc c0 rule: length_induct)
  case (1 s)
  have rec: "good w (scanstring b' acc' t)" if "length t < length s" "length t < length w"
    for b' acc' t w
  proof -
    from 1 that have "good (c0 # t) (scanstring b' acc' t)"
      by blast
    then show ?thesis
      by (rule good_mono) (use that in simp)
  qed
  show ?case
  proof (cases s)
    case Nil
    then show ?thesis by simp
  next
    case outer: (Cons c cs)
    show ?thesis
    proof (cases cs)
      case Nil
      show ?thesis
        unfolding outer Nil
        by (subst scanstring.simps(2)) (simp add: Let_def)
    next
      case (Cons esc cs')
      have r1: "good (x # y # z # cs') (scanstring b' acc' (z' # cs'))" for b' acc' x y z z'
        by (rule rec) (simp_all add: outer Cons)
      have r2: "good (x # y # z # cs') (scanstring b' acc' cs')" for b' acc' x y z
        by (rule rec) (simp_all add: outer Cons)
      have r3: "good (x # y # z # cs') (scanstring b' acc' (drop 4 cs'))" for b' acc' x y z
        by (rule rec) (simp_all add: outer Cons)
      have r4: "good (x # y # z # cs') (scanstring b' acc' (drop 10 cs'))"
        for b' acc' x y z
        by (rule rec) (simp_all add: outer Cons)
      show ?thesis
        unfolding outer Cons
        by (subst scanstring.simps(2))
          (simp add: Let_def r1 r2 r3 r4 del: scanstring.simps split: option.split)
    qed
  qed
qed


lemma startswith_drop:
  "startswith s p \<Longrightarrow> p \<noteq> [] \<Longrightarrow> 0 < k \<Longrightarrow> length (drop k s) < length s"
  by (cases s) (auto simp: startswith_def)

lemma skip_ws_drop:
  "startswith s p \<Longrightarrow> p \<noteq> [] \<Longrightarrow> length (skip_ws (drop 1 s)) < length s"
  using skip_ws_le [of "drop 1 s"] startswith_drop [of s p 1] by simp

lemma match_integer_shorter:
  assumes "match_integer s = Some (i, r)"
  shows "length r < length s"
proof -
  define k where "k = length (if startswith s ''-'' then ''-'' else [])"
  from assms obtain d s2 where d: "drop k s = d # s2"
    and r: "r = s2 \<or> r = dropWhile is_digit s2"
    unfolding match_integer_def Let_def k_def [symmetric]
    by (auto split: list.splits if_splits)
  have "length (drop k s) \<le> length s"
    by simp
  with d have "length s2 < length s"
    by simp
  then show ?thesis
    using r length_dropWhile_le [of is_digit s2] by auto
qed

lemma match_frac_le: "match_frac s = (f, r) \<Longrightarrow> length r \<le> length s"
  by (auto simp: match_frac_def split: list.splits if_splits
      intro: le_trans [OF length_dropWhile_le])

lemma match_exp_le: "match_exp s = (f, r) \<Longrightarrow> length r \<le> length s"
  by (auto simp: match_exp_def Let_def split: list.splits if_splits
      intro!: le_trans [OF length_dropWhile_le])

lemma match_number_shorter: "match_number s = Some (v, r) \<Longrightarrow> length r < length s"
  by (auto simp: match_number_def Let_def split: option.splits prod.splits if_splits
      dest!: match_integer_shorter match_frac_le match_exp_le)


lemma good_string:
  "good s (scanstring b acc t) \<Longrightarrow>
   good s (case scanstring b acc t of Inl e \<Rightarrow> Inl e | Inr (str, rest) \<Rightarrow> Inr (JString str, rest))"
  by (auto simp: good_def split: sum.splits prod.splits)

lemma scan_once_step:
  assumes obj: "\<And>ps t. length t < length s \<Longrightarrow> good t (JSONObject_loop n ps t)"
    and arr: "\<And>vs t. length t < length s \<Longrightarrow> good t (JSONArray_loop n vs t)"
  shows "good s (scan_once (Suc n) s)"
proof (cases s)
  case Nil
  then show ?thesis by simp
next
  case (Cons c cs)
  have ws: "length (skip_ws cs) < length s"
    using skip_ws_le [of cs] Cons by simp
  have o: "good (x # cs) (JSONObject_loop n [] (skip_ws cs))" for x
    by (rule good_mono [OF obj [OF ws]]) (use ws Cons in simp)
  have a: "good (x # cs) (JSONArray_loop n [] (skip_ws cs))" for x
    by (rule good_mono [OF arr [OF ws]]) (use ws Cons in simp)
  have st: "good (x # cs) (case scanstring b [] cs of Inl e \<Rightarrow> Inl e
              | Inr (str, rest) \<Rightarrow> Inr (JString str, rest))" for x b
    by (rule good_string) (rule scanstring_good)
  have d1: "length (skip_ws cs) - Suc 0 \<le> length cs"
    using ws Cons by simp
  have num: "good (x # cs) (Inr r)" if "match_number (x # cs) = Some r" for r x
    using that match_number_shorter [of "x # cs" "fst r" "snd r"] by (cases r) simp
  show ?thesis
    unfolding Cons
    by (simp add: st o a d1 num Let_def less_Suc_eq_le split: option.split)
qed


lemma startswith_nonempty: "startswith s p \<Longrightarrow> p \<noteq> [] \<Longrightarrow> 0 < length s"
  by (cases s) (auto simp: startswith_def)

lemma after_delimiter:
  assumes "startswith t p" "p \<noteq> []"
  shows "length (skip_ws (drop 1 t)) < length t"
  using skip_ws_le [of "drop 1 t"] startswith_nonempty [OF assms] by (cases t) auto

lemma object_loop_step:
  assumes val: "\<And>t. length t + 2 \<le> length s \<Longrightarrow> good t (scan_once n t)"
    and obj: "\<And>ps t. length t + 2 \<le> length s \<Longrightarrow> good t (JSONObject_loop n ps t)"
  shows "good s (JSONObject_loop (Suc n) ps s)"
proof (cases "scanstring s [] (drop 1 s)")
  case (Inl e)
  with scanstring_good [of undefined "drop 1 s" s "[]"] show ?thesis
    by (cases e) simp
next
  case key: (Inr p)
  obtain k s1 where p: "p = (k, s1)"
    by (cases p)
  from scanstring_good [of undefined "drop 1 s" s "[]"] key p
  have l1: "length s1 \<le> length s - 1"
    by simp
  let ?s2 = "skip_ws s1"
  have l2: "length ?s2 \<le> length s1"
    by (rule skip_ws_le)
  show ?thesis
  proof (cases "startswith ?s2 '':''")
    case False
    then show ?thesis
      using key p by simp
  next
    case colon: True
    let ?s4 = "skip_ws (drop 1 ?s2)"
    have "length ?s4 < length ?s2"
      using colon by (rule after_delimiter) simp
    with l1 l2 have l4: "length ?s4 + 2 \<le> length s"
      by simp
    show ?thesis
    proof (cases "scan_once n ?s4")
      case (Inl e)
      with val [OF l4] show ?thesis
        using key p colon by (cases e) simp
    next
      case parsed: (Inr q)
      obtain v s5 where q: "q = (v, s5)"
        by (cases q)
      from val [OF l4] parsed q have l5: "length s5 < length ?s4"
        by simp
      let ?s6 = "skip_ws s5"
      have l6: "length ?s6 \<le> length s5"
        by (rule skip_ws_le)
      have fin: "length (drop 1 ?s6) < length s"
        using l4 l5 l6 by simp
      have more: "good s (JSONObject_loop n ps' (skip_ws (drop 1 ?s6)))" for ps'
      proof (rule good_mono [OF obj])
        have "length (skip_ws (drop 1 ?s6)) \<le> length ?s6"
          using skip_ws_le [of "drop 1 ?s6"] by simp
        with l4 l5 l6 show "length (skip_ws (drop 1 ?s6)) + 2 \<le> length s"
          "length (skip_ws (drop 1 ?s6)) \<le> length s"
          by simp_all
      qed
      show ?thesis
        using key p colon parsed q fin more by (simp add: Let_def)
    qed
  qed
qed

lemma array_loop_step:
  assumes val: "good s (scan_once n s)"
    and arr: "\<And>vs t. length t + 2 \<le> length s \<Longrightarrow> good t (JSONArray_loop n vs t)"
  shows "good s (JSONArray_loop (Suc n) vs s)"
proof (cases "scan_once n s")
  case (Inl e)
  with val show ?thesis
    by (cases e) simp
next
  case (Inr q)
  obtain v s1 where q: "q = (v, s1)"
    by (cases q)
  from val Inr q have l1: "length s1 < length s"
    by simp
  let ?s2 = "skip_ws s1"
  have l2: "length ?s2 \<le> length s1"
    by (rule skip_ws_le)
  have fin: "length (drop 1 ?s2) < length s"
    using l1 l2 by simp
  have more: "good s (JSONArray_loop n vs' (skip_ws (drop 1 ?s2)))"
    if "startswith ?s2 '',''" for vs'
  proof (rule good_mono [OF arr])
    have "length (skip_ws (drop 1 ?s2)) < length ?s2"
      using that by (rule after_delimiter) simp
    with l1 l2 show "length (skip_ws (drop 1 ?s2)) + 2 \<le> length s"
      "length (skip_ws (drop 1 ?s2)) \<le> length s"
      by simp_all
  qed
  show ?thesis
    using Inr q fin more by (simp add: Let_def)
qed

lemma decoder_good:
  "(\<forall>s. 2 * length s < n \<longrightarrow> good s (scan_once n s))
   \<and> (\<forall>ps s. 2 * length s < n \<longrightarrow> good s (JSONObject_loop n ps s))
   \<and> (\<forall>vs s. 2 * length s + 1 < n \<longrightarrow> good s (JSONArray_loop n vs s))"
proof (induction n)
  case 0
  then show ?case by simp
next
  case (Suc n)
  then have val: "2 * length s < n \<Longrightarrow> good s (scan_once n s)"
    and obj: "2 * length s < n \<Longrightarrow> good s (JSONObject_loop n ps s)"
    and arr: "2 * length s + 1 < n \<Longrightarrow> good s (JSONArray_loop n vs s)" for s ps vs
    by blast+
  have 1: "good s (scan_once (Suc n) s)" if "2 * length s < Suc n" for s
    by (rule scan_once_step) (use that in \<open>auto intro: obj arr\<close>)
  have 2: "good s (JSONObject_loop (Suc n) ps s)" if "2 * length s < Suc n" for s ps
    by (rule object_loop_step) (use that in \<open>auto intro: val obj\<close>)
  have 3: "good s (JSONArray_loop (Suc n) vs s)" if "2 * length s + 1 < Suc n" for s vs
    by (rule array_loop_step) (use that in \<open>auto intro: val arr\<close>)
  from 1 2 3 show ?case
    by blast
qed

text \<open>
  \<open>json_loads\<close> never runs out of its bound: what it reports is an error of the
  decoder itself, or a value.
\<close>

lemma json_loads_fuel_suffices:
  "scan_once (2 * length doc + 2) (skip_ws doc) \<noteq> Inl (Out_of_fuel, at)"
proof -
  have "2 * length (skip_ws doc) < 2 * length doc + 2"
    using skip_ws_le [of doc] by simp
  with decoder_good [of "2 * length doc + 2"]
  have "good (skip_ws doc) (scan_once (2 * length doc + 2) (skip_ws doc))"
    by blast
  then show ?thesis
    by (metis good_Inl)
qed

end
